theory Spec2Isabelle
  imports
    Complex_Main
    "HOL-Library.Multiset"
    "HOL-Library.Char_ord"
    "HOL-Library.List_Lexorder"
    "HOL-Library.Product_Lexorder"
begin

section \<open>The dividend forecast engine of dividend_parser.py\<close>

text \<open>
  The theory embeds \<^verbatim>\<open>DividendParser.forecast_dividends\<close> (src/dividend_parser.py,
  lines 828-1409) and the part of \<^verbatim>\<open>clean_data\<close> it relies on.

  Conventions of the embedding:
  \<^item> a \<^verbatim>\<open>datetime\<close> is its calendar date (the parser only produces midnight values);
    building one outside the calendar, or outside the years 1..9999, raises ValueError,
    which is \<open>None\<close> here;
  \<^item> amounts are exact rationals: the source computes with binary floats, whose
    rounding error is not modelled;
  \<^item> the clock (\<^verbatim>\<open>datetime.now()\<close>) is a parameter, read once;
  \<^item> a dictionary that the source iterates is an association list in insertion order;
  \<^item> the display columns \<^verbatim>\<open>record_date_str\<close>, \<^verbatim>\<open>period\<close> and
    \<^verbatim>\<open>announcement_date\<close> are left out: they are strings derived from the other
    columns and no decision reads them;
  \<^item> the strategy labels, Russian strings in the source, are the constructors of
    \<open>strategy\<close>.
\<close>

subsection \<open>Calendar dates\<close>

record date =
  dyear :: int
  dmonth :: int
  dday :: int

text \<open>
  The leap-year test the handlers write inline:
  \<^verbatim>\<open>y % 4 == 0 and (y % 100 != 0 or y % 400 == 0)\<close>.
\<close>

definition is_leap :: "int \<Rightarrow> bool" where
  "is_leap y \<longleftrightarrow> y mod 4 = 0 \<and> (y mod 100 \<noteq> 0 \<or> y mod 400 = 0)"

definition days_in_month :: "int \<Rightarrow> int \<Rightarrow> int" where
  "days_in_month y m =
     (if m = 2 then (if is_leap y then 29 else 28)
      else if m \<in> {4, 6, 9, 11} then 30 else 31)"

definition valid_date :: "int \<Rightarrow> int \<Rightarrow> int \<Rightarrow> bool" where
  "valid_date y m d \<longleftrightarrow>
     1 \<le> y \<and> y \<le> 9999 \<and> 1 \<le> m \<and> m \<le> 12 \<and> 1 \<le> d \<and> d \<le> days_in_month y m"

text \<open>\<^verbatim>\<open>datetime(y, m, d)\<close>; \<open>None\<close> is the ValueError.\<close>

definition datetime :: "int \<Rightarrow> int \<Rightarrow> int \<Rightarrow> date option" where
  "datetime y m d =
     (if valid_date y m d then Some \<lparr>dyear = y, dmonth = m, dday = d\<rparr> else None)"

text \<open>\<^verbatim>\<open>dt - timedelta(days=1)\<close>; \<open>None\<close> is the OverflowError before year 1.\<close>

definition minus_one_day :: "date \<Rightarrow> date option" where
  "minus_one_day dt =
     (if 1 < dday dt then Some (dt\<lparr>dday := dday dt - 1\<rparr>)
      else if 1 < dmonth dt then
        Some \<lparr>dyear = dyear dt, dmonth = dmonth dt - 1,
              dday = days_in_month (dyear dt) (dmonth dt - 1)\<rparr>
      else if 1 < dyear dt then Some \<lparr>dyear = dyear dt - 1, dmonth = 12, dday = 31\<rparr>
      else None)"

text \<open>
  The date of a forecast point: \<^verbatim>\<open>datetime(year, month, day)\<close> and, in its
  \<^verbatim>\<open>except ValueError\<close> handler, the clamping chain. The source repeats this block
  verbatim in every strategy (lines 961-977, 1064-1087, 1137-1154, 1207-1223, 1278-1294,
  1342-1358). A ValueError raised inside the handler leaves it: \<open>None\<close>.
\<close>

definition forecast_date :: "int \<Rightarrow> int \<Rightarrow> int \<Rightarrow> date option" where
  "forecast_date y m d =
     (case datetime y m d of
        Some dt \<Rightarrow> Some dt
      | None \<Rightarrow>
          if m = 2 \<and> 28 < d then
            (if is_leap y then datetime y 2 29 else datetime y 2 28)
          else if 30 < d \<and> m \<in> set [4, 6, 9, 11] then datetime y m 30
          else if 1 < m then
            (case datetime y m 1 of
               None \<Rightarrow> None
             | Some next_month \<Rightarrow> minus_one_day next_month)
          else datetime (y - 1) 12 31)"

subsection \<open>Rows of the data frame\<close>

text \<open>
  The value of the column \<^verbatim>\<open>forecast_strategy\<close>. The source writes these labels
  (in Russian): "0 - actual data", "1 - site forecast", "3.1 - quarterly data",
  "3.2 - payment dates", "3.3 - annual data", "3.3 - single annual",
  "3.4 - emergency strategy", "3.4 - inactive company".
\<close>

datatype strategy =
  ActualData | SiteForecast | QuarterlyData | PaymentDates | AnnualData | SingleAnnual
  | EmergencyStrategy | InactiveCompany

text \<open>
  One row of \<^verbatim>\<open>clean_df\<close>, of \<^verbatim>\<open>forecast_data\<close> and of the result.
  \<^verbatim>\<open>forecast_type\<close> is 0 for an actual payment, 1 for a forecast of the site and 2
  for a forecast of the engine. \<^verbatim>\<open>forecast_strategy\<close> is \<open>None\<close> while the column
  does not exist (in \<^verbatim>\<open>clean_df\<close>).
\<close>

record row =
  ticker :: string
  name :: string
  record_date :: "date option"
  dividend_value :: rat
  year :: "int option"
  quarter :: "int option"
  month :: "int option"
  forecast_type :: int
  forecast_strategy :: "strategy option"

text \<open>
  What \<^verbatim>\<open>clean_data\<close> (lines 817-819) and the type of \<^verbatim>\<open>record_date\<close> establish
  for a row: the month column is the month of the record date, and a record date is a
  calendar date.
\<close>

definition clean_row :: "row \<Rightarrow> bool" where
  "clean_row r \<longleftrightarrow>
     month r = map_option dmonth (record_date r) \<and>
     (case record_date r of
        None \<Rightarrow> True
      | Some dt \<Rightarrow> valid_date (dyear dt) (dmonth dt) (dday dt))"

subsection \<open>The history of one ticker (lines 865-935)\<close>

record history =
  ticker_quarters :: "(int \<times> row list) list"
  site_forecasts :: "int \<times> int \<Rightarrow> row option"
  all_payments :: "row list"
  recent_payments_sum :: rat
  annual_payment_dates :: "((int \<times> int) \<times> row list) list"

definition empty_history :: history where
  "empty_history =
     \<lparr>ticker_quarters = [], site_forecasts = (\<lambda>k. None), all_payments = [],
      recent_payments_sum = 0, annual_payment_dates = []\<rparr>"

text \<open>
  \<^verbatim>\<open>if k not in d: d[k] = []\<close> followed by \<^verbatim>\<open>d[k].append(v)\<close>, on a dictionary
  kept in insertion order.
\<close>

fun dict_append :: "'k \<Rightarrow> 'v \<Rightarrow> ('k \<times> 'v list) list \<Rightarrow> ('k \<times> 'v list) list" where
  "dict_append k v [] = [(k, [v])]"
| "dict_append k v ((k', vs) # d) =
     (if k' = k then (k', vs @ [v]) # d else (k', vs) # dict_append k v d)"

text \<open>
  The body of the loop over the rows of a group. The dictionaries that the source
  appends (projections of the row) are the row itself here. The site forecasts are keyed
  by the pair that the source formats into the string \<^verbatim>\<open>f"{year}-{quarter}"\<close>.
\<close>

definition analyse_row :: "int \<Rightarrow> row \<Rightarrow> history \<Rightarrow> history" where
  "analyse_row recent_activity_year r h =
     (if forecast_type r = 0 \<and> year r \<noteq> None then
        let h1 =
          (if 0 < dividend_value r then
             let h2 = h\<lparr>all_payments := all_payments h @ [r]\<rparr>;
                 h3 = (if recent_activity_year \<le> the (year r)
                       then h2\<lparr>recent_payments_sum := recent_payments_sum h2 + dividend_value r\<rparr>
                       else h2)
             in (case record_date r of
                   None \<Rightarrow> h3
                 | Some dt \<Rightarrow>
                     h3\<lparr>annual_payment_dates :=
                          dict_append (dmonth dt, dday dt) r (annual_payment_dates h3)\<rparr>)
           else h)
        in (case quarter r of
              None \<Rightarrow> h1
            | Some q \<Rightarrow> h1\<lparr>ticker_quarters := dict_append q r (ticker_quarters h1)\<rparr>)
      else if forecast_type r = 1 then
        (case (year r, quarter r) of
           (Some y, Some q) \<Rightarrow> h\<lparr>site_forecasts := (site_forecasts h)((y, q) \<mapsto> r)\<rparr>
         | _ \<Rightarrow> h)
      else h)"

definition analyse :: "int \<Rightarrow> row list \<Rightarrow> history" where
  "analyse recent_activity_year rows = fold (analyse_row recent_activity_year) rows empty_history"

subsection \<open>Amounts\<close>

text \<open>\<^verbatim>\<open>sum(...) / len(...)\<close>; every call site has a non-empty list.\<close>

definition mean :: "rat list \<Rightarrow> rat" where
  "mean xs = sum_list xs / of_nat (length xs)"

text \<open>\<^verbatim>\<open>round(x, 2)\<close>: to the nearest hundredth, a tie to the even one.\<close>

definition round_half_even :: "rat \<Rightarrow> int" where
  "round_half_even x =
     (let f = \<lfloor>x\<rfloor>; r = x - of_int f
      in if r < 1 / 2 then f else if 1 / 2 < r then f + 1
         else if even f then f else f + 1)"

definition round2 :: "rat \<Rightarrow> rat" where
  "round2 x = of_int (round_half_even (x * 100)) / 100"

subsection \<open>The forecast points\<close>

text \<open>\<^verbatim>\<open>range(current_year + 1, current_year + years + 1)\<close>\<close>

definition future_years :: "int \<Rightarrow> int \<Rightarrow> int list" where
  "future_years current_year years = [current_year + 1 .. current_year + years]"

text \<open>
  \<^verbatim>\<open>forecast_data.append({...})\<close>. The name is \<^verbatim>\<open>group['name'].iloc[0]\<close>, which
  raises on an empty group; the point is then skipped by the enclosing
  \<^verbatim>\<open>except Exception\<close>.
\<close>

definition emit ::
  "string \<Rightarrow> row list \<Rightarrow> date \<Rightarrow> rat \<Rightarrow> int \<Rightarrow> int option \<Rightarrow> strategy \<Rightarrow> row list" where
  "emit tk grp dt v y q s =
     (case grp of
        [] \<Rightarrow> []
      | r # _ \<Rightarrow>
          [\<lparr>ticker = tk, name = name r, record_date = Some dt, dividend_value = v,
            year = Some y, quarter = q, month = Some (dmonth dt), forecast_type = 2,
            forecast_strategy = Some s\<rparr>])"

definition quarterly_dates :: "(int \<times> int) list" where
  "quarterly_dates = [(3, 15), (6, 15), (9, 15), (12, 15)]"

fun py_enumerate :: "int \<Rightarrow> 'a list \<Rightarrow> (int \<times> 'a) list" where
  "py_enumerate i [] = []"
| "py_enumerate i (x # xs) = (i, x) # py_enumerate (i + 1) xs"

text \<open>
  One record per quarter and future year at the fixed dates, with one amount: the loop
  of the inactive branch (lines 945-998), of the annual strategy (1191-1244) and of the
  emergency strategy (1326-1379), which differ in the amount and the label only.
\<close>

definition fixed_date_forecasts ::
  "int \<Rightarrow> int \<Rightarrow> string \<Rightarrow> row list \<Rightarrow> rat \<Rightarrow> strategy \<Rightarrow> row list" where
  "fixed_date_forecasts current_year years tk grp v s =
     concat (map (\<lambda>(q, (m, d)).
       concat (map (\<lambda>y.
         case forecast_date y m d of
           None \<Rightarrow> []
         | Some dt \<Rightarrow> emit tk grp dt v y (Some q) s)
         (future_years current_year years)))
       (py_enumerate 1 quarterly_dates))"

text \<open>
  \<^verbatim>\<open>max(set(xs), key=xs.count)\<close>: the first value of the greatest count in the
  iteration order of the set. That order is an implementation detail of CPython; the
  model iterates in ascending order. \<open>None\<close> is the empty list, which every call site
  tests before.
\<close>

fun max_by :: "('a \<Rightarrow> nat) \<Rightarrow> 'a \<Rightarrow> 'a list \<Rightarrow> 'a" where
  "max_by key best [] = best"
| "max_by key best (x # xs) = max_by key (if key best < key x then x else best) xs"

definition most_common :: "int list \<Rightarrow> int option" where
  "most_common xs =
     (case sort (remdups xs) of
        [] \<Rightarrow> None
      | z # zs \<Rightarrow> Some (max_by (count_list xs) z zs))"

text \<open>Lines 1024-1042: the typical month and day of a quarter.\<close>

definition typical_month :: "int \<Rightarrow> row list \<Rightarrow> int" where
  "typical_month current_month hist =
     (case most_common (List.map_filter month hist) of
        None \<Rightarrow> current_month
      | Some m \<Rightarrow> m)"

definition typical_day :: "int \<Rightarrow> row list \<Rightarrow> int" where
  "typical_day most_common_month hist =
     (let days = map dday (filter (\<lambda>dt. dmonth dt = most_common_month)
                                  (List.map_filter record_date hist))
      in if days = [] then 15 else sum_list days div int (length days))"

text \<open>
  Lines 1047-1109: one point of the quarterly strategy. A forecast of the site for the
  same year and quarter that has a record date gives the date and the amount.
\<close>

definition quarterly_point ::
  "string \<Rightarrow> row list \<Rightarrow> history \<Rightarrow> int \<Rightarrow> rat \<Rightarrow> int \<Rightarrow> int \<Rightarrow> int \<Rightarrow> row list" where
  "quarterly_point tk grp h q avg_dividend most_common_month most_common_day y =
     (let computed =
        (case forecast_date y most_common_month most_common_day of
           None \<Rightarrow> []
         | Some dt \<Rightarrow> emit tk grp dt (round2 avg_dividend) y (Some q) QuarterlyData)
      in case site_forecasts h (y, q) of
           None \<Rightarrow> computed
         | Some site_forecast \<Rightarrow>
             (case record_date site_forecast of
                None \<Rightarrow> computed
              | Some dt \<Rightarrow>
                  emit tk grp dt (dividend_value site_forecast) y (Some q) QuarterlyData))"

definition quarterly_forecasts ::
  "int \<Rightarrow> int \<Rightarrow> int \<Rightarrow> string \<Rightarrow> row list \<Rightarrow> history \<Rightarrow> row list" where
  "quarterly_forecasts current_year current_month years tk grp h =
     concat (map (\<lambda>(q, hist).
       if hist = [] then []
       else
         let avg_dividend = mean (map dividend_value hist);
             most_common_month = typical_month current_month hist;
             most_common_day = typical_day most_common_month hist
         in concat (map (quarterly_point tk grp h q avg_dividend most_common_month most_common_day)
                        (future_years current_year years)))
       (ticker_quarters h))"

text \<open>
  Lines 1116-1180: the strategy of the payment dates. The division by
  \<^verbatim>\<open>len(payments)\<close> is inside the \<^verbatim>\<open>try\<close> of the group.
\<close>

definition anniversary_forecasts ::
  "int \<Rightarrow> int \<Rightarrow> string \<Rightarrow> row list \<Rightarrow> history \<Rightarrow> row list" where
  "anniversary_forecasts current_year years tk grp h =
     concat (map (\<lambda>((m, d), payments).
       if payments = [] then []
       else
         let avg_dividend = mean (map dividend_value payments);
             q = (case most_common (List.map_filter quarter payments) of
                    Some q \<Rightarrow> q
                  | None \<Rightarrow> (m - 1) div 3 + 1)
         in concat (map (\<lambda>y.
              case forecast_date y m d of
                None \<Rightarrow> []
              | Some dt \<Rightarrow> emit tk grp dt (round2 avg_dividend) y (Some q) PaymentDates)
              (future_years current_year years)))
       (annual_payment_dates h))"

subsection \<open>The chain of strategies for one ticker (lines 937-1384)\<close>

definition has_quarterly_data :: "history \<Rightarrow> bool" where
  "has_quarterly_data h \<longleftrightarrow>
     list_ex (\<lambda>(q, hist). 1 < length hist) (ticker_quarters h) \<and>
     \<not> length (all_payments h) \<le> 1"

text \<open>
  \<^verbatim>\<open>ticker_forecast_count\<close> is the number of records emitted for the ticker so far.
  In the annual strategy no statement of the \<^verbatim>\<open>try\<close> body outside the \<^verbatim>\<open>try\<close> of
  a point can raise (the division is guarded by \<^verbatim>\<open>len(all_payments) > 0\<close>), so its
  handler, the single annual forecast of lines 1246-1318, is never entered.
\<close>

definition forecast_group ::
  "int \<Rightarrow> int \<Rightarrow> int \<Rightarrow> int \<Rightarrow> string \<Rightarrow> row list \<Rightarrow> row list" where
  "forecast_group current_year current_month years history_years tk grp =
     (let h = analyse (current_year - history_years) grp
      in if recent_payments_sum h = 0 then
           fixed_date_forecasts current_year years tk grp 0 InactiveCompany
         else
           let f1 = (if has_quarterly_data h
                     then quarterly_forecasts current_year current_month years tk grp h
                     else []);
               f2 = (if length f1 = 0 \<and> annual_payment_dates h \<noteq> []
                     then f1 @ anniversary_forecasts current_year years tk grp h
                     else f1);
               f3 = (if length f2 = 0 \<and> 0 < length (all_payments h)
                     then f2 @ fixed_date_forecasts current_year years tk grp
                            (round2 (mean (map dividend_value (all_payments h)) / 4)) AnnualData
                     else f2);
               f4 = (if length f3 = 0
                     then f3 @ fixed_date_forecasts current_year years tk grp 0 EmergencyStrategy
                     else f3)
           in f4)"

subsection \<open>The whole data frame (lines 838-862, 1390-1409)\<close>

record parser =
  clean_df :: "row list"
  result_df :: "row list option"

definition add_strategy_column :: "row \<Rightarrow> row" where
  "add_strategy_column r =
     r\<lparr>forecast_strategy := Some (if forecast_type r = 0 then ActualData else SiteForecast)\<rparr>"

text \<open>\<^verbatim>\<open>df.groupby('ticker')\<close>: the groups in ascending order of the ticker.\<close>

definition groupby_ticker :: "row list \<Rightarrow> (string \<times> row list) list" where
  "groupby_ticker df =
     map (\<lambda>tk. (tk, filter (\<lambda>r. ticker r = tk) df)) (sort (remdups (map ticker df)))"

definition forecast_data :: "int \<Rightarrow> int \<Rightarrow> int \<Rightarrow> int \<Rightarrow> row list \<Rightarrow> row list" where
  "forecast_data current_year current_month years history_years df =
     concat (map (\<lambda>(tk, grp). forecast_group current_year current_month years history_years tk grp)
                 (groupby_ticker df))"

text \<open>
  The key of \<^verbatim>\<open>sort_values(['ticker', 'record_date'])\<close>: the ticker, then the date,
  a missing date after every date. The sort on several columns is stable.
\<close>

definition sort_values_key :: "row \<Rightarrow> string \<times> bool \<times> int \<times> int \<times> int" where
  "sort_values_key r =
     (ticker r,
      case record_date r of
        None \<Rightarrow> (True, 0, 0, 0)
      | Some dt \<Rightarrow> (False, dyear dt, dmonth dt, dday dt))"

text \<open>
  \<^verbatim>\<open>forecast_dividends(years, history_years)\<close>: the value returned and the parser
  after the call. The common columns of the two frames are all the columns.
\<close>

definition forecast_dividends ::
  "int \<Rightarrow> int \<Rightarrow> int \<Rightarrow> int \<Rightarrow> parser \<Rightarrow> row list option \<times> parser" where
  "forecast_dividends current_year current_month years history_years self =
     (if clean_df self = [] then (None, self)
      else
        let df = map add_strategy_column (clean_df self);
            fd = forecast_data current_year current_month years history_years df;
            result = (if fd \<noteq> [] then sort_key sort_values_key (df @ fd) else df)
        in (Some result, self\<lparr>result_df := Some result\<rparr>))"

subsection \<open>Vocabulary of the properties\<close>

text \<open>
  The rows that the loop of lines 881-935 selects: an actual payment (a row appended to
  \<^verbatim>\<open>all_payments\<close>), a payment inside the window of recent activity, an actual
  observation of a quarter (appended to \<^verbatim>\<open>ticker_quarters\<close>), an actual payment
  with a record date on a given month and day, and a forecast of the site stored under
  a year and a quarter.
\<close>

definition actual_payment :: "row \<Rightarrow> bool" where
  "actual_payment r \<longleftrightarrow> forecast_type r = 0 \<and> year r \<noteq> None \<and> 0 < dividend_value r"

definition recent_payment :: "int \<Rightarrow> row \<Rightarrow> bool" where
  "recent_payment recent_activity_year r \<longleftrightarrow>
     forecast_type r = 0 \<and> 0 < dividend_value r \<and>
     (case year r of None \<Rightarrow> False | Some y \<Rightarrow> recent_activity_year \<le> y)"

definition quarter_observation :: "int \<Rightarrow> row \<Rightarrow> bool" where
  "quarter_observation q r \<longleftrightarrow> forecast_type r = 0 \<and> year r \<noteq> None \<and> quarter r = Some q"

definition paid_on :: "int \<times> int \<Rightarrow> row \<Rightarrow> bool" where
  "paid_on md r \<longleftrightarrow>
     actual_payment r \<and>
     (case record_date r of None \<Rightarrow> False | Some dt \<Rightarrow> (dmonth dt, dday dt) = md)"

definition site_forecast_for :: "int \<Rightarrow> int \<Rightarrow> row \<Rightarrow> bool" where
  "site_forecast_for y q r \<longleftrightarrow> forecast_type r = 1 \<and> year r = Some y \<and> quarter r = Some q"

text \<open>The sum that the activity gate tests, over the rows of the group.\<close>

definition recent_activity :: "int \<Rightarrow> row list \<Rightarrow> rat" where
  "recent_activity recent_activity_year grp =
     sum_list (map dividend_value (filter (recent_payment recent_activity_year) grp))"

text \<open>The record of a quarter q (month m, day 15) and a year y at the fixed dates.\<close>

definition fixed_date_record ::
  "string \<Rightarrow> string \<Rightarrow> rat \<Rightarrow> strategy \<Rightarrow> int \<Rightarrow> int \<Rightarrow> int \<Rightarrow> row" where
  "fixed_date_record tk nm v s q m y =
     \<lparr>ticker = tk, name = nm, record_date = Some \<lparr>dyear = y, dmonth = m, dday = 15\<rparr>,
      dividend_value = v, year = Some y, quarter = Some q, month = Some m,
      forecast_type = 2, forecast_strategy = Some s\<rparr>"

text \<open>One such record per quarter and per year of the horizon, quarter by quarter.\<close>

definition fixed_date_table ::
  "int \<Rightarrow> int \<Rightarrow> string \<Rightarrow> string \<Rightarrow> rat \<Rightarrow> strategy \<Rightarrow> row list" where
  "fixed_date_table current_year years tk nm v s =
     concat (map (\<lambda>(q, m). map (fixed_date_record tk nm v s q m)
                               [current_year + 1 .. current_year + years])
                 [(1, 3), (2, 6), (3, 9), (4, 12)])"

text \<open>The points of one quarter at its fixed date, over the horizon.\<close>

definition quarter_points ::
  "int \<Rightarrow> int \<Rightarrow> string \<Rightarrow> row list \<Rightarrow> rat \<Rightarrow> strategy \<Rightarrow> int \<Rightarrow> int \<Rightarrow> row list" where
  "quarter_points cy years tk grp v s q m =
     concat (map (\<lambda>y. case forecast_date y m 15 of None \<Rightarrow> []
                       | Some dt \<Rightarrow> emit tk grp dt v y (Some q) s) (future_years cy years))"

text \<open>
  The order of the result: by ticker, then by record date, a row without a date after
  the dated rows of its ticker.
\<close>

definition ordered_rows :: "row \<Rightarrow> row \<Rightarrow> bool" where
  "ordered_rows a b \<longleftrightarrow>
     ticker a < ticker b \<or>
     (ticker a = ticker b \<and>
      (case record_date a of
         None \<Rightarrow> record_date b = None
       | Some x \<Rightarrow>
           (case record_date b of
              None \<Rightarrow> True
            | Some y \<Rightarrow> (dyear x, dmonth x, dday x) \<le> (dyear y, dmonth y, dday y))))"

subsection \<open>Example histories\<close>

text \<open>
  A ticker with one payment in the first quarter of 2024 and a
  second observation of the same quarter that carries no amount.
\<close>

definition example_single_payment :: "row list" where
  "example_single_payment =
     [\<lparr>ticker = ''ABC'', name = ''Abc'',
       record_date = Some \<lparr>dyear = 2024, dmonth = 3, dday = 10\<rparr>, dividend_value = 5,
       year = Some 2024, quarter = Some 1, month = Some 3, forecast_type = 0,
       forecast_strategy = Some ActualData\<rparr>,
      \<lparr>ticker = ''ABC'', name = ''Abc'', record_date = None, dividend_value = 0,
       year = Some 2023, quarter = Some 1, month = None, forecast_type = 0,
       forecast_strategy = Some ActualData\<rparr>]"






text \<open>
  The history of the end-to-end example: payments of 5, 7 and 6 in the first quarters
  of 2022, 2023 and 2024, with any record dates.
\<close>

definition abc_payment :: "int \<Rightarrow> rat \<Rightarrow> date option \<Rightarrow> row" where
  "abc_payment y v dt =
     \<lparr>ticker = ''ABC'', name = ''Abc'', record_date = dt, dividend_value = v,
      year = Some y, quarter = Some 1, month = map_option dmonth dt, forecast_type = 0,
      forecast_strategy = Some ActualData\<rparr>"

definition abc_history :: "date option \<Rightarrow> date option \<Rightarrow> date option \<Rightarrow> row list" where
  "abc_history d1 d2 d3 = [abc_payment 2022 5 d1, abc_payment 2023 7 d2, abc_payment 2024 6 d3]"


text \<open>
  A frame of two tickers before the strategy column exists: ZZZ with two payments
  that have neither a date nor a quarter, AAA with two dated payments of the second
  quarter.
\<close>

definition undated_payment :: "int \<Rightarrow> rat \<Rightarrow> row" where
  "undated_payment y v =
     \<lparr>ticker = ''ZZZ'', name = ''Zzz'', record_date = None, dividend_value = v,
      year = Some y, quarter = None, month = None, forecast_type = 0,
      forecast_strategy = None\<rparr>"

definition dated_payment :: "int \<Rightarrow> int \<Rightarrow> row" where
  "dated_payment y d =
     \<lparr>ticker = ''AAA'', name = ''Aaa'',
      record_date = Some \<lparr>dyear = y, dmonth = 6, dday = d\<rparr>, dividend_value = 10,
      year = Some y, quarter = Some 2, month = Some 6, forecast_type = 0,
      forecast_strategy = None\<rparr>"

definition example_frame :: "row list" where
  "example_frame =
     [undated_payment 2023 3, dated_payment 2023 10, undated_payment 2022 2,
      dated_payment 2022 12]"

subsection \<open>The clamping rule\<close>

lemma days_in_month_bounds: "28 \<le> days_in_month y m \<and> days_in_month y m \<le> 31"
  by (simp add: days_in_month_def)

lemma datetime_valid: "valid_date y m d \<Longrightarrow> datetime y m d = Some \<lparr>dyear = y, dmonth = m, dday = d\<rparr>"
  by (simp add: datetime_def)

lemma datetime_invalid: "\<not> valid_date y m d \<Longrightarrow> datetime y m d = None"
  by (simp add: datetime_def)

lemma valid_date_upto28: "1 \<le> y \<Longrightarrow> y \<le> 9999 \<Longrightarrow> 1 \<le> m \<Longrightarrow> m \<le> 12 \<Longrightarrow> 1 \<le> d \<Longrightarrow> d \<le> 28 \<Longrightarrow> valid_date y m d"
  by (simp add: valid_date_def days_in_month_def)

lemma valid_date_last: "1 \<le> y \<Longrightarrow> y \<le> 9999 \<Longrightarrow> 1 \<le> m \<Longrightarrow> m \<le> 12 \<Longrightarrow> valid_date y m (days_in_month y m)"
  by (simp add: valid_date_def days_in_month_def)


lemma forecast_date_valid:
  "valid_date y m d \<Longrightarrow> forecast_date y m d = Some \<lparr>dyear = y, dmonth = m, dday = d\<rparr>"
  by (simp add: forecast_date_def datetime_def)

lemma forecast_date_feb:
  "\<not> valid_date y m d \<Longrightarrow> m = 2 \<Longrightarrow> 28 < d \<Longrightarrow>
   forecast_date y m d = (if is_leap y then datetime y 2 29 else datetime y 2 28)"
  by (simp add: forecast_date_def datetime_def)

lemma forecast_date_day30:
  "\<not> valid_date y m d \<Longrightarrow> 30 < d \<Longrightarrow> m \<in> {4, 6, 9, 11} \<Longrightarrow>
   forecast_date y m d = datetime y m 30"
  by (auto simp add: forecast_date_def datetime_def)

lemma forecast_date_previous:
  "\<not> valid_date y m d \<Longrightarrow> \<not> (m = 2 \<and> 28 < d) \<Longrightarrow> \<not> (30 < d \<and> m \<in> {4, 6, 9, 11}) \<Longrightarrow>
   forecast_date y m d =
     (if 1 < m then
        (case datetime y m 1 of None \<Rightarrow> None | Some next_month \<Rightarrow> minus_one_day next_month)
      else datetime (y - 1) 12 31)"
  by (auto simp add: forecast_date_def datetime_def)

lemma forecast_date_clamped:
  assumes "2 \<le> y" and "y \<le> 9999" and "1 \<le> m" and "m \<le> 12"
    and inv: "\<not> valid_date y m d"
  shows "forecast_date y m d = Some
     (if m = 2 \<and> 28 < d then
        \<lparr>dyear = y, dmonth = 2, dday = (if is_leap y then 29 else 28)\<rparr>
      else if 30 < d \<and> m \<in> {4, 6, 9, 11} then \<lparr>dyear = y, dmonth = m, dday = 30\<rparr>
      else if m = 1 then \<lparr>dyear = y - 1, dmonth = 12, dday = 31\<rparr>
      else \<lparr>dyear = y, dmonth = m - 1, dday = days_in_month y (m - 1)\<rparr>)"
proof -
  have feb29: "datetime y 2 29 = Some \<lparr>dyear = y, dmonth = 2, dday = 29\<rparr>" if "is_leap y"
    using that assms(1,2) by (simp add: datetime_def valid_date_def days_in_month_def)
  have feb28: "datetime y 2 28 = Some \<lparr>dyear = y, dmonth = 2, dday = 28\<rparr>"
    using assms(1,2) by (simp add: datetime_def valid_date_def days_in_month_def)
  have d30: "datetime y m 30 = Some \<lparr>dyear = y, dmonth = m, dday = 30\<rparr>" if "m \<in> {4, 6, 9, 11}"
    using that assms(1,2) by (auto simp add: datetime_def valid_date_def days_in_month_def)
  have first: "datetime y m 1 = Some \<lparr>dyear = y, dmonth = m, dday = 1\<rparr>"
    using assms(1-4) by (simp add: datetime_valid valid_date_upto28)
  have dec: "datetime (y - 1) 12 31 = Some \<lparr>dyear = y - 1, dmonth = 12, dday = 31\<rparr>"
    using assms(1,2) by (simp add: datetime_def valid_date_def days_in_month_def)
  show ?thesis
  proof (cases "m = 2 \<and> 28 < d")
    case True
    then show ?thesis using forecast_date_feb [OF inv] feb29 feb28 by simp
  next
    case nfeb: False
    show ?thesis
    proof (cases "30 < d \<and> m \<in> {4, 6, 9, 11}")
      case True
      then have "forecast_date y m d = datetime y m 30"
        using forecast_date_day30 [OF inv] by blast
      then show ?thesis using True nfeb d30 by simp
    next
      case False
      have "forecast_date y m d =
        (if 1 < m then minus_one_day \<lparr>dyear = y, dmonth = m, dday = 1\<rparr>
         else Some \<lparr>dyear = y - 1, dmonth = 12, dday = 31\<rparr>)"
        using forecast_date_previous [OF inv nfeb False] first dec by simp
      then show ?thesis using nfeb False assms(3)
        by (auto simp add: minus_one_day_def)
    qed
  qed
qed

text \<open>
  C4. When the literal date (y, m, d) of a forecast point is not a calendar date (month
  in 1..12, years 2..9999): February with a day above 28 gives Feb 29 in a Gregorian
  leap year and Feb 28 otherwise; else a day above 30 in April, June, September or
  November gives day 30 of that month; else the result is the last day of the previous
  month, which is Dec 31 of the previous year for January. In particular Feb 29 of a
  non-leap year gives Feb 28, and Apr 31 gives Apr 30.
\<close>

theorem date_clamping_rule:
  assumes "2 \<le> y" and "y \<le> 9999" and "1 \<le> m" and "m \<le> 12"
  shows "(\<not> valid_date y m d \<longrightarrow>
           forecast_date y m d = Some
             (if m = 2 \<and> 28 < d then
                \<lparr>dyear = y, dmonth = 2, dday = (if is_leap y then 29 else 28)\<rparr>
              else if 30 < d \<and> m \<in> {4, 6, 9, 11} then \<lparr>dyear = y, dmonth = m, dday = 30\<rparr>
              else if m = 1 then \<lparr>dyear = y - 1, dmonth = 12, dday = 31\<rparr>
              else \<lparr>dyear = y, dmonth = m - 1, dday = days_in_month y (m - 1)\<rparr>))
         \<and> (\<not> is_leap y \<longrightarrow> forecast_date y 2 29 = Some \<lparr>dyear = y, dmonth = 2, dday = 28\<rparr>)
         \<and> forecast_date y 4 31 = Some \<lparr>dyear = y, dmonth = 4, dday = 30\<rparr>"
proof -
  have feb: "\<not> valid_date y 2 29" if "\<not> is_leap y"
    using that by (simp add: valid_date_def days_in_month_def)
  have apr: "\<not> valid_date y 4 31" by (simp add: valid_date_def days_in_month_def)
  show ?thesis
    using forecast_date_clamped [OF assms, of d] forecast_date_clamped [OF assms(1,2) _ _ feb]
      forecast_date_clamped [OF assms(1,2) _ _ apr]
    by simp
qed

theorem date_clamping_rule_witness:
  "\<not> valid_date 2025 2 29
   \<and> forecast_date 2025 2 29 = Some \<lparr>dyear = 2025, dmonth = 2, dday = 28\<rparr>
   \<and> forecast_date 2025 4 31 = Some \<lparr>dyear = 2025, dmonth = 4, dday = 30\<rparr>
   \<and> forecast_date 2028 2 30 = Some \<lparr>dyear = 2028, dmonth = 2, dday = 29\<rparr>
   \<and> forecast_date 2025 1 32 = Some \<lparr>dyear = 2024, dmonth = 12, dday = 31\<rparr>
   \<and> forecast_date 2025 3 0 = Some \<lparr>dyear = 2025, dmonth = 2, dday = 28\<rparr>"
  using date_clamping_rule [of 2025 2 29] date_clamping_rule [of 2028 2 30]
    date_clamping_rule [of 2025 1 32] date_clamping_rule [of 2025 3 0]
  by (simp add: valid_date_def days_in_month_def is_leap_def)

subsection \<open>The accumulators of the analysis\<close>

lemma all_payments_analyse_row:
  "all_payments (analyse_row rc r h) =
     (if actual_payment r then all_payments h @ [r] else all_payments h)"
  by (simp add: analyse_row_def actual_payment_def Let_def split: option.splits)

lemma recent_sum_analyse_row:
  "recent_payments_sum (analyse_row rc r h) =
     (if recent_payment rc r then recent_payments_sum h + dividend_value r
      else recent_payments_sum h)"
  by (auto simp add: analyse_row_def recent_payment_def Let_def split: option.splits)

lemma ticker_quarters_analyse_row:
  "ticker_quarters (analyse_row rc r h) =
     (case quarter r of
        None \<Rightarrow> ticker_quarters h
      | Some q \<Rightarrow> if quarter_observation q r then dict_append q r (ticker_quarters h)
                  else ticker_quarters h)"
  by (auto simp add: analyse_row_def quarter_observation_def Let_def split: option.splits)

lemma annual_dates_analyse_row:
  "annual_payment_dates (analyse_row rc r h) =
     (case record_date r of
        None \<Rightarrow> annual_payment_dates h
      | Some dt \<Rightarrow> if actual_payment r
                   then dict_append (dmonth dt, dday dt) r (annual_payment_dates h)
                   else annual_payment_dates h)"
  by (auto simp add: analyse_row_def actual_payment_def Let_def split: option.splits)

lemma site_forecasts_analyse_row:
  "site_forecasts (analyse_row rc r h) k =
     (if site_forecast_for (fst k) (snd k) r then Some r else site_forecasts h k)"
  by (cases k) (auto simp add: analyse_row_def site_forecast_for_def Let_def split: option.splits)


lemma all_payments_fold:
  "all_payments (fold (analyse_row rc) rows h) = all_payments h @ filter actual_payment rows"
  by (induction rows arbitrary: h) (simp_all add: all_payments_analyse_row)

lemma recent_sum_fold:
  "recent_payments_sum (fold (analyse_row rc) rows h) =
     recent_payments_sum h + recent_activity rc rows"
  by (induction rows arbitrary: h) (simp_all add: recent_sum_analyse_row recent_activity_def)

lemma site_forecasts_fold:
  "site_forecasts (fold (analyse_row rc) rows h) (y, q) =
     (if filter (site_forecast_for y q) rows = [] then site_forecasts h (y, q)
      else Some (last (filter (site_forecast_for y q) rows)))"
proof (induction rows arbitrary: h rule: rev_induct)
  case Nil
  then show ?case by simp
next
  case (snoc r rows)
  then show ?case
    by (simp add: site_forecasts_analyse_row)
qed

lemma all_payments_analyse [simp]:
  "all_payments (analyse rc grp) = filter actual_payment grp"
  by (simp add: analyse_def all_payments_fold empty_history_def)

lemma recent_sum_analyse [simp]:
  "recent_payments_sum (analyse rc grp) = recent_activity rc grp"
  by (simp add: analyse_def recent_sum_fold empty_history_def)

lemma site_forecasts_analyse:
  "site_forecasts (analyse rc grp) (y, q) =
     (if filter (site_forecast_for y q) grp = [] then None
      else Some (last (filter (site_forecast_for y q) grp)))"
  by (simp add: analyse_def site_forecasts_fold empty_history_def)

subsection \<open>Dictionaries of lists\<close>

lemma dict_append_keys: "fst ` set (dict_append k v d) = insert k (fst ` set d)"
proof (induction d)
  case Nil
  then show ?case by simp
next
  case (Cons a d)
  obtain k' vs where a: "a = (k', vs)" by (cases a)
  show ?case
  proof (cases "k' = k")
    case True
    then show ?thesis using a by auto
  next
    case False
    then show ?thesis using a Cons by auto
  qed
qed

lemma dict_append_distinct: "distinct (map fst d) \<Longrightarrow> distinct (map fst (dict_append k v d))"
proof (induction d)
  case Nil
  then show ?case by simp
next
  case (Cons a d)
  obtain k' vs where a: "a = (k', vs)" by (cases a)
  with Cons show ?case using dict_append_keys [of k v d] by auto
qed

lemma dict_append_map_of:
  "map_of (dict_append k v d) k' =
     (if k' = k then Some ((case map_of d k of None \<Rightarrow> [] | Some vs \<Rightarrow> vs) @ [v])
      else map_of d k')"
  by (induction d) auto

lemma dict_append_not_Nil [simp]: "dict_append k v d \<noteq> []"
  by (cases d) (auto split: if_splits)

text \<open>The dictionary filled by a loop that appends the selected rows under their key.\<close>

lemma fold_dict_map_of:
  "map_of (fold (\<lambda>r d. if P r then dict_append (key r) r d else d) rows d0) k =
     (let xs = filter (\<lambda>r. P r \<and> key r = k) rows
      in case map_of d0 k of
           None \<Rightarrow> (if xs = [] then None else Some xs)
         | Some vs \<Rightarrow> Some (vs @ xs))"
proof (induction rows arbitrary: d0)
  case Nil
  then show ?case by (simp split: option.splits)
next
  case (Cons r rows)
  then show ?case
    by (auto simp add: dict_append_map_of Let_def split: option.splits)
qed

lemma fold_dict_distinct:
  "distinct (map fst d0) \<Longrightarrow>
   distinct (map fst (fold (\<lambda>r d. if P r then dict_append (key r) r d else d) rows d0))"
  by (induction rows arbitrary: d0) (simp_all add: dict_append_distinct)


lemma annual_dates_fold:
  "annual_payment_dates (fold (analyse_row rc) rows h) =
     fold (\<lambda>r d. if actual_payment r \<and> record_date r \<noteq> None
                  then dict_append (dmonth (the (record_date r)), dday (the (record_date r))) r d
                  else d) rows (annual_payment_dates h)"
  by (induction rows arbitrary: h)
    (auto simp add: annual_dates_analyse_row split: option.splits)



lemma annual_dates_map_of:
  "map_of (annual_payment_dates (analyse rc grp)) md =
     (if filter (paid_on md) grp = [] then None else Some (filter (paid_on md) grp))"
proof -
  have eq: "(\<lambda>r. (actual_payment r \<and> record_date r \<noteq> None) \<and>
                  (dmonth (the (record_date r)), dday (the (record_date r))) = md)
            = paid_on md"
    by (auto simp add: paid_on_def fun_eq_iff split: option.splits)
  show ?thesis
    unfolding analyse_def annual_dates_fold fold_dict_map_of eq
    by (simp add: empty_history_def)
qed

lemma annual_dates_distinct: "distinct (map fst (annual_payment_dates (analyse rc grp)))"
  unfolding analyse_def annual_dates_fold
  by (rule fold_dict_distinct) (simp add: empty_history_def)

subsection \<open>Forecast dates that cannot fail\<close>

lemma forecast_date_total:
  assumes "1 \<le> y" and "y \<le> 9999" and "1 \<le> m" and "m \<le> 12" and "1 \<le> d" and "d \<le> 31"
  shows "\<exists>dt. forecast_date y m d = Some dt \<and> dyear dt = y \<and> dmonth dt = m"
proof (cases "valid_date y m d")
  case True
  then show ?thesis by (simp add: forecast_date_valid)
next
  case False
  then have big: "days_in_month y m < d" using assms by (simp add: valid_date_def)
  show ?thesis
  proof (cases "m = 2")
    case True
    with big have "28 < d" by (simp add: days_in_month_def split: if_splits)
    then show ?thesis using forecast_date_feb [OF False True] assms(1,2) True
      by (simp add: datetime_def valid_date_def days_in_month_def)
  next
    case m2: False
    with big assms(6) have "30 < d" and "m \<in> {4, 6, 9, 11}"
      by (auto simp add: days_in_month_def split: if_splits)
    then show ?thesis using forecast_date_day30 [OF False] assms(1,2)
      by (auto simp add: datetime_def valid_date_def days_in_month_def)
  qed
qed

lemma forecast_date_fixed:
  assumes "1 \<le> y" and "y \<le> 9999" and "m \<in> {3, 6, 9, 12}"
  shows "forecast_date y m 15 = Some \<lparr>dyear = y, dmonth = m, dday = 15\<rparr>"
  using assms by (intro forecast_date_valid) (auto simp add: valid_date_def days_in_month_def)

subsection \<open>The most common value\<close>

lemma max_by_mem: "max_by key z zs \<in> set (z # zs)"
  by (induction zs arbitrary: z) (auto split: if_splits)

lemma most_common_None: "most_common xs = None \<longleftrightarrow> xs = []"
proof -
  have "sort (remdups xs) = [] \<longleftrightarrow> xs = []"
    by (metis remdups_eq_nil_iff set_empty set_sort)
  then show ?thesis by (cases "sort (remdups xs)") (simp_all add: most_common_def)
qed

lemma most_common_mem: "most_common xs = Some m \<Longrightarrow> m \<in> set xs"
proof -
  assume a: "most_common xs = Some m"
  then obtain z zs where zs: "sort (remdups xs) = z # zs" and m: "m = max_by (count_list xs) z zs"
    by (auto simp add: most_common_def split: list.splits)
  have "m \<in> set (z # zs)" unfolding m by (rule max_by_mem)
  also have "set (z # zs) = set xs" using zs by (metis set_remdups set_sort)
  finally show ?thesis .
qed

lemma most_common_single: "most_common [x] = Some x"
  by (simp add: most_common_def)

subsection \<open>Typical month and day of clean rows\<close>

lemma map_filter_set: "set (List.map_filter f xs) = {y. \<exists>x \<in> set xs. f x = Some y}"
  by (force simp add: List.map_filter_def image_iff)

lemma typical_month_range:
  assumes "\<forall>r \<in> set hist. clean_row r" and "1 \<le> cm" and "cm \<le> 12"
  shows "1 \<le> typical_month cm hist \<and> typical_month cm hist \<le> 12"
proof (cases "most_common (List.map_filter month hist)")
  case None
  then show ?thesis using assms by (simp add: typical_month_def)
next
  case (Some m)
  then have "m \<in> set (List.map_filter month hist)" by (rule most_common_mem)
  then obtain r where r: "r \<in> set hist" and mr: "month r = Some m"
    by (auto simp add: map_filter_set)
  with assms(1) have "clean_row r" by blast
  with mr have "1 \<le> m \<and> m \<le> 12"
    by (auto simp add: clean_row_def valid_date_def split: option.splits)
  then show ?thesis using Some by (simp add: typical_month_def)
qed

lemma sum_list_bounds:
  fixes xs :: "int list"
  assumes "\<forall>x \<in> set xs. a \<le> x \<and> x \<le> b"
  shows "a * int (length xs) \<le> sum_list xs \<and> sum_list xs \<le> b * int (length xs)"
  using assms by (induction xs) (auto simp add: algebra_simps)

lemma average_bounds:
  fixes xs :: "int list"
  assumes "\<forall>x \<in> set xs. a \<le> x \<and> x \<le> b" and "xs \<noteq> []"
  shows "a \<le> sum_list xs div int (length xs) \<and> sum_list xs div int (length xs) \<le> b"
proof -
  have n: "0 < int (length xs)" using assms(2) by simp
  from sum_list_bounds [OF assms(1)]
  have lo: "a * int (length xs) \<le> sum_list xs" and hi: "sum_list xs \<le> b * int (length xs)"
    by simp_all
  have "a * int (length xs) div int (length xs) \<le> sum_list xs div int (length xs)"
    using lo n by (rule zdiv_mono1)
  then have "a \<le> sum_list xs div int (length xs)" using n by simp
  moreover have "sum_list xs div int (length xs) \<le> b * int (length xs) div int (length xs)"
    using hi n by (rule zdiv_mono1)
  then have "sum_list xs div int (length xs) \<le> b" using n by simp
  ultimately show ?thesis by simp
qed

lemma typical_day_range:
  assumes "\<forall>r \<in> set hist. clean_row r"
  shows "1 \<le> typical_day mm hist \<and> typical_day mm hist \<le> 31"
proof -
  let ?days = "map dday (filter (\<lambda>dt. dmonth dt = mm) (List.map_filter record_date hist))"
  have "\<forall>d \<in> set ?days. 1 \<le> d \<and> d \<le> 31"
  proof
    fix d assume "d \<in> set ?days"
    then obtain r dt where "r \<in> set hist" and rd: "record_date r = Some dt" and d: "d = dday dt"
      by (auto simp add: map_filter_set)
    with assms have "valid_date (dyear dt) (dmonth dt) (dday dt)"
      by (fastforce simp add: clean_row_def)
    then show "1 \<le> d \<and> d \<le> 31"
      using days_in_month_bounds [of "dyear dt" "dmonth dt"] d by (simp add: valid_date_def)
  qed
  then show ?thesis
    using average_bounds [of ?days 1 31] by (simp add: typical_day_def Let_def)
qed

subsection \<open>The strategies at the fixed dates\<close>

lemma concat_map_singleton:
  "(\<And>y. y \<in> set ys \<Longrightarrow> f y = [g y]) \<Longrightarrow> concat (map f ys) = map g ys"
  by (induction ys) simp_all

lemma concat_map_mem:
  "y \<in> set ys \<Longrightarrow> x \<in> set (f y) \<Longrightarrow> x \<in> set (concat (map f ys))"
  by auto

lemma emit_Cons:
  "emit tk (r0 # rest) dt v y q s =
     [\<lparr>ticker = tk, name = name r0, record_date = Some dt, dividend_value = v,
       year = Some y, quarter = q, month = Some (dmonth dt), forecast_type = 2,
       forecast_strategy = Some s\<rparr>]"
  by (simp add: emit_def)

lemma emit_props:
  "r \<in> set (emit tk grp dt v y q s) \<Longrightarrow>
     ticker r = tk \<and> record_date r = Some dt \<and> dividend_value r = v \<and> year r = Some y \<and>
     quarter r = q \<and> forecast_type r = 2 \<and> forecast_strategy r = Some s"
  by (cases grp) (auto simp add: emit_def)

lemma fixed_point:
  assumes "1 \<le> y" and "y \<le> 9999" and "m \<in> {3, 6, 9, 12}" and "grp \<noteq> []"
  shows "(case forecast_date y m 15 of None \<Rightarrow> [] | Some dt \<Rightarrow> emit tk grp dt v y (Some q) s)
         = [fixed_date_record tk (name (hd grp)) v s q m y]"
  using assms(4) forecast_date_fixed [OF assms(1-3)]
  by (cases grp) (simp_all add: emit_def fixed_date_record_def)

lemma fixed_date_forecasts_unfold:
  "fixed_date_forecasts cy years tk grp v s =
     quarter_points cy years tk grp v s 1 3 @ quarter_points cy years tk grp v s 2 6 @
     quarter_points cy years tk grp v s 3 9 @ quarter_points cy years tk grp v s 4 12"
  by (simp add: fixed_date_forecasts_def quarterly_dates_def quarter_points_def)

lemma quarter_points_table:
  assumes "grp \<noteq> []" and "0 \<le> cy" and "cy + years \<le> 9999" and "m \<in> {3, 6, 9, 12}"
  shows "quarter_points cy years tk grp v s q m =
     map (fixed_date_record tk (name (hd grp)) v s q m) [cy + 1 .. cy + years]"
  unfolding quarter_points_def future_years_def
proof (rule concat_map_singleton)
  fix y assume "y \<in> set [cy + 1 .. cy + years]"
  then have "1 \<le> y" and "y \<le> 9999" using assms(2,3) by simp_all
  then show "(case forecast_date y m 15 of None \<Rightarrow> []
              | Some dt \<Rightarrow> emit tk grp dt v y (Some q) s)
             = [fixed_date_record tk (name (hd grp)) v s q m y]"
    using assms(4,1) by (rule fixed_point)
qed

lemma fixed_date_forecasts_table:
  assumes "grp \<noteq> []" and "0 \<le> cy" and "cy + years \<le> 9999"
  shows "fixed_date_forecasts cy years tk grp v s = fixed_date_table cy years tk (name (hd grp)) v s"
  by (simp add: fixed_date_forecasts_unfold fixed_date_table_def quarter_points_table [OF assms])

lemma quarter_points_props:
  assumes "r \<in> set (quarter_points cy years tk grp v s q m)"
  shows "ticker r = tk \<and> dividend_value r = v \<and> forecast_type r = 2 \<and>
         forecast_strategy r = Some s \<and> quarter r = Some q \<and>
         (\<exists>y \<in> set (future_years cy years). year r = Some y)"
proof -
  from assms obtain y dt where y: "y \<in> set (future_years cy years)"
    and r: "r \<in> set (emit tk grp dt v y (Some q) s)"
    by (auto simp add: quarter_points_def split: option.splits)
  from emit_props [OF r] y show ?thesis by blast
qed

lemma fixed_date_forecasts_props:
  assumes "r \<in> set (fixed_date_forecasts cy years tk grp v s)"
  shows "ticker r = tk \<and> dividend_value r = v \<and> forecast_type r = 2 \<and> forecast_strategy r = Some s"
proof -
  from assms obtain q m where "r \<in> set (quarter_points cy years tk grp v s q m)"
    by (auto simp add: fixed_date_forecasts_unfold)
  from quarter_points_props [OF this] show ?thesis by blast
qed

lemma fixed_date_forecasts_nonempty:
  assumes "grp \<noteq> []" and "1 \<le> years" and "0 \<le> cy" and "cy < 9999"
  shows "fixed_date_forecasts cy years tk grp v s \<noteq> []"
proof -
  have y: "cy + 1 \<in> set (future_years cy years)" using assms(2) by (simp add: future_years_def)
  have "(case forecast_date (cy + 1) 3 15 of None \<Rightarrow> []
         | Some dt \<Rightarrow> emit tk grp dt v (cy + 1) (Some 1) s)
        = [fixed_date_record tk (name (hd grp)) v s 1 3 (cy + 1)]"
    using assms by (intro fixed_point) simp_all
  then have "fixed_date_record tk (name (hd grp)) v s 1 3 (cy + 1)
             \<in> set (quarter_points cy years tk grp v s 1 3)"
    unfolding quarter_points_def using y by (intro concat_map_mem [of "cy + 1"]) simp_all
  then show ?thesis by (auto simp add: fixed_date_forecasts_unfold)
qed

subsection \<open>The chain\<close>

lemma recent_payment_actual: "recent_payment rc r \<Longrightarrow> actual_payment r"
  by (auto simp add: recent_payment_def actual_payment_def split: option.splits)

lemma active_has_payment:
  assumes "recent_activity rc grp \<noteq> 0"
  shows "filter actual_payment grp \<noteq> []"
proof
  assume "filter actual_payment grp = []"
  then have "\<forall>r \<in> set grp. \<not> actual_payment r" by (simp add: filter_empty_conv)
  then have "filter (recent_payment rc) grp = []"
    using recent_payment_actual by (auto simp add: filter_empty_conv)
  with assms show False by (simp add: recent_activity_def)
qed

lemma forecast_group_inactive:
  "recent_activity (cy - hy) grp = 0 \<Longrightarrow>
   forecast_group cy cm years hy tk grp = fixed_date_forecasts cy years tk grp 0 InactiveCompany"
  by (simp add: forecast_group_def Let_def)

lemma forecast_group_active:
  assumes "recent_activity (cy - hy) grp \<noteq> 0"
  shows "forecast_group cy cm years hy tk grp =
     (let h = analyse (cy - hy) grp;
          f1 = (if has_quarterly_data h then quarterly_forecasts cy cm years tk grp h else []);
          f2 = (if annual_payment_dates h \<noteq> [] then anniversary_forecasts cy years tk grp h else []);
          f3 = fixed_date_forecasts cy years tk grp
                 (round2 (mean (map dividend_value (filter actual_payment grp)) / 4)) AnnualData;
          f4 = fixed_date_forecasts cy years tk grp 0 EmergencyStrategy
      in if f1 \<noteq> [] then f1 else if f2 \<noteq> [] then f2 else if f3 \<noteq> [] then f3 else f4)"
  using assms active_has_payment [OF assms]
  by (simp add: forecast_group_def Let_def)

lemma forecast_group_nonempty:
  assumes "grp \<noteq> []" and "1 \<le> years" and "0 \<le> cy" and "cy < 9999"
  shows "forecast_group cy cm years hy tk grp \<noteq> []"
proof (cases "recent_activity (cy - hy) grp = 0")
  case True
  then show ?thesis
    using fixed_date_forecasts_nonempty [OF assms] by (simp add: forecast_group_inactive)
next
  case False
  then show ?thesis
    using fixed_date_forecasts_nonempty [OF assms]
    by (simp add: forecast_group_active Let_def)
qed

text \<open>
  C1. A security whose actual payments of the years from currentYear - window on sum to
  zero gets exactly the records of the inactive branch: for each quarter 1..4 and each
  year of the horizon one record of amount 0, label "inactive company", dated Mar 15,
  Jun 15, Sep 15 or Dec 15 of that year; nothing of another strategy is emitted. (The
  horizon stays inside the years that a date can hold.)
\<close>

theorem inactive_company_forecasts:
  assumes "grp \<noteq> []" and "0 \<le> cy" and "cy + years \<le> 9999"
    and "recent_activity (cy - hy) grp = 0"
  shows "forecast_group cy cm years hy tk grp =
           fixed_date_table cy years tk (name (hd grp)) 0 InactiveCompany"
  using assms by (simp add: forecast_group_inactive fixed_date_forecasts_table)

theorem inactive_company_forecasts_witness:
  "recent_activity (2024 - 3)
     [\<lparr>ticker = ''OLD'', name = ''Old Co'', record_date = None, dividend_value = 5,
       year = Some 2015, quarter = Some 2, month = None, forecast_type = 0,
       forecast_strategy = Some ActualData\<rparr>] = 0
   \<and> forecast_group 2024 6 1 3 ''OLD''
     [\<lparr>ticker = ''OLD'', name = ''Old Co'', record_date = None, dividend_value = 5,
       year = Some 2015, quarter = Some 2, month = None, forecast_type = 0,
       forecast_strategy = Some ActualData\<rparr>]
     = [fixed_date_record ''OLD'' ''Old Co'' 0 InactiveCompany 1 3 2025,
        fixed_date_record ''OLD'' ''Old Co'' 0 InactiveCompany 2 6 2025,
        fixed_date_record ''OLD'' ''Old Co'' 0 InactiveCompany 3 9 2025,
        fixed_date_record ''OLD'' ''Old Co'' 0 InactiveCompany 4 12 2025]"
  using inactive_company_forecasts [of
      "[\<lparr>ticker = ''OLD'', name = ''Old Co'', record_date = None, dividend_value = 5,
         year = Some 2015, quarter = Some 2, month = None, forecast_type = 0,
         forecast_strategy = Some ActualData\<rparr>]" 2024 1 3 6 "''OLD''"]
  by (simp add: recent_activity_def recent_payment_def fixed_date_table_def)

subsection \<open>The records of the quarterly and of the payment-date strategy\<close>




lemma anniversary_forecasts_props:
  assumes "r \<in> set (anniversary_forecasts cy years tk grp h)"
  shows "ticker r = tk \<and> forecast_type r = 2 \<and> forecast_strategy r = Some PaymentDates"
proof -
  from assms obtain dt v y q where "r \<in> set (emit tk grp dt v y q PaymentDates)"
    by (auto simp add: anniversary_forecasts_def Let_def split: if_splits option.splits)
  from emit_props [OF this] show ?thesis by simp
qed


text \<open>
  C2. A security that passes the activity gate with at most one actual payment in total
  never gets a record of the quarterly strategy, whatever the number of observations of
  its quarters: every record it gets carries the label of a later strategy (payment
  dates, annual data, emergency), and for a horizon of at least one year inside the
  calendar it gets at least one.
\<close>

theorem single_payment_skips_quarterly:
  assumes "recent_activity (cy - hy) grp \<noteq> 0"
    and "length (filter actual_payment grp) \<le> 1"
  shows "(\<forall>r \<in> set (forecast_group cy cm years hy tk grp).
            forecast_strategy r \<noteq> Some QuarterlyData \<and>
            forecast_strategy r \<in> {Some PaymentDates, Some AnnualData, Some EmergencyStrategy})
         \<and> (1 \<le> years \<and> 0 \<le> cy \<and> cy < 9999 \<longrightarrow> forecast_group cy cm years hy tk grp \<noteq> [])"
proof -
  have nq: "\<not> has_quarterly_data (analyse (cy - hy) grp)"
    using assms(2) by (simp add: has_quarterly_data_def)
  have grp: "grp \<noteq> []" using active_has_payment [OF assms(1)] by auto
  have labels: "\<forall>r \<in> set (forecast_group cy cm years hy tk grp).
            forecast_strategy r \<noteq> Some QuarterlyData \<and>
            forecast_strategy r \<in> {Some PaymentDates, Some AnnualData, Some EmergencyStrategy}"
    using nq anniversary_forecasts_props fixed_date_forecasts_props
    unfolding forecast_group_active [OF assms(1)] Let_def
    by (auto split: if_splits)
  show ?thesis using labels forecast_group_nonempty [OF grp] by blast
qed

theorem single_payment_skips_quarterly_witness:
  "recent_activity (2024 - 3) example_single_payment \<noteq> 0
   \<and> length (filter actual_payment example_single_payment) \<le> 1
   \<and> length (filter (quarter_observation 1) example_single_payment) = 2
   \<and> forecast_group 2024 6 1 3 ''ABC'' example_single_payment \<noteq> []
   \<and> map forecast_strategy (forecast_group 2024 6 1 3 ''ABC'' example_single_payment)
       = [Some PaymentDates]"
proof -
  have h4: "map forecast_strategy (forecast_group 2024 6 1 3 ''ABC'' example_single_payment)
       = [Some PaymentDates]" by code_simp
  have h1: "recent_activity (2024 - 3) example_single_payment \<noteq> 0" by code_simp
  have h2: "length (filter actual_payment example_single_payment) \<le> 1" by code_simp
  have h3: "length (filter (quarter_observation 1) example_single_payment) = 2" by code_simp
  from single_payment_skips_quarterly [OF h1 h2, of 6 1 "''ABC''"] h1 h2 h3 h4
  show ?thesis by simp
qed



subsection \<open>The forecasts of the site\<close>






subsection \<open>The quarterly strategy on clean rows\<close>




lemma quarterly_point_emits:
  assumes "grp \<noteq> []" and "1 \<le> y" and "y \<le> 9999"
    and "1 \<le> mm" and "mm \<le> 12" and "1 \<le> dd" and "dd \<le> 31"
  shows "\<exists>r. quarterly_point tk grp h q avg mm dd y = [r] \<and> quarter r = Some q \<and>
             year r = Some y \<and> forecast_strategy r = Some QuarterlyData \<and>
             ((case site_forecasts h (y, q) of None \<Rightarrow> True
               | Some sf \<Rightarrow> record_date sf = None) \<longrightarrow> dividend_value r = round2 avg)"
proof -
  obtain r0 rest where grp: "grp = r0 # rest" using assms(1) by (cases grp) auto
  from forecast_date_total [OF assms(2-7)] obtain dt where dt: "forecast_date y mm dd = Some dt"
    by blast
  show ?thesis
    by (auto simp add: quarterly_point_def Let_def dt grp emit_Cons split: option.splits)
qed





subsection \<open>The quarters of the quarterly strategy\<close>

lemma forecast_group_quarterly_eq:
  assumes "recent_activity (cy - hy) grp \<noteq> 0" and "has_quarterly_data (analyse (cy - hy) grp)"
    and "quarterly_forecasts cy cm years tk grp (analyse (cy - hy) grp) \<noteq> []"
  shows "forecast_group cy cm years hy tk grp
         = quarterly_forecasts cy cm years tk grp (analyse (cy - hy) grp)"
  using assms(2,3) by (simp add: forecast_group_active [OF assms(1)] Let_def)





subsection \<open>The end-to-end example\<close>

lemma round2_6: "round2 6 = 6"
  by (simp add: round2_def round_half_even_def)

lemma abc_quarters:
  "ticker_quarters (analyse rc (abc_history d1 d2 d3)) = [(1, abc_history d1 d2 d3)]"
  by (simp add: analyse_def ticker_quarters_analyse_row quarter_observation_def
      abc_history_def abc_payment_def empty_history_def)

lemma abc_mean: "mean (map dividend_value (abc_history d1 d2 d3)) = 6"
  by (simp add: mean_def abc_history_def abc_payment_def)

lemma abc_no_site: "site_forecasts (analyse rc (abc_history d1 d2 d3)) k = None"
proof -
  obtain y q where k: "k = (y, q)" by (cases k)
  show ?thesis unfolding k
    by (simp add: site_forecasts_analyse site_forecast_for_def abc_history_def abc_payment_def)
qed

text \<open>
  C5. The history (Q1 2022: 5, Q1 2023: 7, Q1 2024: 6), whatever the record dates, with
  a horizon of 2 years, a window of 3 years and the current year 2024 gives exactly two
  records, for the first quarters of 2025 and 2026, each of the amount
  round((5 + 7 + 6) / 3, 2) = 6 and of the quarterly strategy.
\<close>

theorem abc_end_to_end:
  assumes "\<forall>r \<in> set (abc_history d1 d2 d3). clean_row r" and "1 \<le> cm" and "cm \<le> 12"
  shows "map (\<lambda>r. (quarter r, year r, dividend_value r, forecast_strategy r))
           (forecast_group 2024 cm 2 3 ''ABC'' (abc_history d1 d2 d3))
         = [(Some 1, Some 2025, 6, Some QuarterlyData), (Some 1, Some 2026, 6, Some QuarterlyData)]
         \<and> round2 ((5 + 7 + 6) / 3) = 6"
proof -
  let ?g = "abc_history d1 d2 d3"
  let ?h = "analyse (2024 - 3) ?g"
  let ?mm = "typical_month cm ?g"
  let ?dd = "typical_day ?mm ?g"
  have gate: "recent_activity (2024 - 3) ?g \<noteq> 0"
    by (simp add: recent_activity_def recent_payment_def abc_history_def abc_payment_def)
  have hq: "has_quarterly_data ?h"
    by (simp add: has_quarterly_data_def abc_quarters)
      (simp add: abc_history_def abc_payment_def actual_payment_def)
  have ne: "?g \<noteq> []" by (simp add: abc_history_def)
  have pt: "\<exists>r. quarterly_point ''ABC'' ?g ?h 1 6 ?mm ?dd y = [r] \<and> quarter r = Some 1 \<and>
             year r = Some y \<and> forecast_strategy r = Some QuarterlyData \<and> dividend_value r = 6"
    if "y = 2025 \<or> y = 2026" for y
  proof -
    from typical_month_range [OF assms] typical_day_range [OF assms(1)]
    have "\<exists>r. quarterly_point ''ABC'' ?g ?h 1 6 ?mm ?dd y = [r] \<and> quarter r = Some 1 \<and>
             year r = Some y \<and> forecast_strategy r = Some QuarterlyData \<and>
             ((case site_forecasts ?h (y, 1) of None \<Rightarrow> True
               | Some sf \<Rightarrow> record_date sf = None) \<longrightarrow> dividend_value r = round2 6)"
      using ne that by (intro quarterly_point_emits) auto
    then show ?thesis by (auto simp add: abc_no_site round2_6)
  qed
  from pt [of 2025] obtain ra where ra: "quarterly_point ''ABC'' ?g ?h 1 6 ?mm ?dd 2025 = [ra]"
    "quarter ra = Some 1" "year ra = Some 2025" "forecast_strategy ra = Some QuarterlyData"
    "dividend_value ra = 6" by auto
  from pt [of 2026] obtain rb where rb: "quarterly_point ''ABC'' ?g ?h 1 6 ?mm ?dd 2026 = [rb]"
    "quarter rb = Some 1" "year rb = Some 2026" "forecast_strategy rb = Some QuarterlyData"
    "dividend_value rb = 6" by auto
  have q: "quarterly_forecasts 2024 cm 2 ''ABC'' ?g ?h = [ra, rb]"
    using ra(1) rb(1) ne
    by (simp add: quarterly_forecasts_def abc_quarters abc_mean future_years_def Let_def)
  then have "forecast_group 2024 cm 2 3 ''ABC'' ?g = [ra, rb]"
    using forecast_group_quarterly_eq [OF gate hq, of cm 2 "''ABC''"] by simp
  then show ?thesis using ra rb by (simp add: round2_6)
qed

theorem abc_end_to_end_witness:
  "map dividend_value
     (forecast_group 2024 11 2 3 ''ABC''
        (abc_history (Some \<lparr>dyear = 2022, dmonth = 3, dday = 31\<rparr>) None
                     (Some \<lparr>dyear = 2024, dmonth = 2, dday = 29\<rparr>))) = [6, 6]
   \<and> map year
     (forecast_group 2024 11 2 3 ''ABC''
        (abc_history (Some \<lparr>dyear = 2022, dmonth = 3, dday = 31\<rparr>) None
                     (Some \<lparr>dyear = 2024, dmonth = 2, dday = 29\<rparr>))) = [Some 2025, Some 2026]
   \<and> map quarter
     (forecast_group 2024 11 2 3 ''ABC''
        (abc_history (Some \<lparr>dyear = 2022, dmonth = 3, dday = 31\<rparr>) None
                     (Some \<lparr>dyear = 2024, dmonth = 2, dday = 29\<rparr>))) = [Some 1, Some 1]"
proof -
  let ?g = "abc_history (Some \<lparr>dyear = 2022, dmonth = 3, dday = 31\<rparr>) None
                     (Some \<lparr>dyear = 2024, dmonth = 2, dday = 29\<rparr>)"
  have c: "\<forall>r \<in> set ?g. clean_row r" by code_simp
  have "map (\<lambda>r. (quarter r, year r, dividend_value r, forecast_strategy r))
           (forecast_group 2024 11 2 3 ''ABC'' ?g)
         = [(Some 1, Some 2025, 6, Some QuarterlyData), (Some 1, Some 2026, 6, Some QuarterlyData)]"
    using abc_end_to_end [OF c, of 11] by simp
  then show ?thesis by (auto simp add: map_eq_Cons_conv)
qed

subsection \<open>One record per quarter and year\<close>






subsection \<open>The merged frame\<close>


lemma forecast_dividends_result:
  "clean_df self \<noteq> [] \<Longrightarrow>
   fst (forecast_dividends cy cm years hy self) =
     Some (let df = map add_strategy_column (clean_df self);
               fd = forecast_data cy cm years hy df
           in if fd \<noteq> [] then sort_key sort_values_key (df @ fd) else df)"
  by (simp add: forecast_dividends_def Let_def)

lemma sort_values_key_le:
  "sort_values_key a \<le> sort_values_key b \<Longrightarrow> ordered_rows a b"
  by (auto simp add: sort_values_key_def ordered_rows_def split: option.splits)

lemma sort_values_key_undated:
  "sort_values_key r = (tk, True, 0, 0, 0) \<longleftrightarrow> ticker r = tk \<and> record_date r = None"
  by (auto simp add: sort_values_key_def split: option.splits)

lemma groupby_ticker_first:
  assumes "df \<noteq> []"
  shows "(ticker (hd df), filter (\<lambda>r. ticker r = ticker (hd df)) df) \<in> set (groupby_ticker df)
         \<and> filter (\<lambda>r. ticker r = ticker (hd df)) df \<noteq> []"
proof -
  have "hd df \<in> set df" using assms by (rule hd_in_set)
  then have "ticker (hd df) \<in> set (sort (remdups (map ticker df)))"
    and "filter (\<lambda>r. ticker r = ticker (hd df)) df \<noteq> []"
    by (auto simp add: filter_empty_conv)
  then show ?thesis by (auto simp add: groupby_ticker_def)
qed

lemma forecast_data_nonempty:
  assumes "df \<noteq> []" and "1 \<le> years" and "0 \<le> cy" and "cy < 9999"
  shows "forecast_data cy cm years hy df \<noteq> []"
proof -
  let ?tk = "ticker (hd df)"
  let ?grp = "filter (\<lambda>r. ticker r = ?tk) df"
  from groupby_ticker_first [OF assms(1)]
  have g: "(?tk, ?grp) \<in> set (groupby_ticker df)" and ne: "?grp \<noteq> []" by simp_all
  define r where "r = hd (forecast_group cy cm years hy ?tk ?grp)"
  have "r \<in> set (forecast_group cy cm years hy ?tk ?grp)"
    unfolding r_def using forecast_group_nonempty [OF ne assms(2-4)] by (rule hd_in_set)
  then have "r \<in> set (forecast_data cy cm years hy df)"
    unfolding forecast_data_def using g by (intro concat_map_mem [of "(?tk, ?grp)"]) simp_all
  then show ?thesis by auto
qed

text \<open>
  C8. When forecasts were generated, the result is the historical rows and the
  forecasts together, sorted by ticker and then by record date, the rows without a date
  after the dated rows of their ticker and in the order they had before the sort.
\<close>

theorem merged_output_sorted:
  assumes "fst (forecast_dividends cy cm years hy self) = Some out"
    and "forecast_data cy cm years hy (map add_strategy_column (clean_df self)) \<noteq> []"
  shows "sorted_wrt ordered_rows out
     \<and> mset out = mset (map add_strategy_column (clean_df self) @
                        forecast_data cy cm years hy (map add_strategy_column (clean_df self)))
     \<and> (\<forall>tk. filter (\<lambda>r. ticker r = tk \<and> record_date r = None) out
             = filter (\<lambda>r. ticker r = tk \<and> record_date r = None)
                 (map add_strategy_column (clean_df self) @
                  forecast_data cy cm years hy (map add_strategy_column (clean_df self))))"
proof -
  let ?df = "map add_strategy_column (clean_df self)"
  let ?fd = "forecast_data cy cm years hy ?df"
  have ne: "clean_df self \<noteq> []"
    using assms(1) by (auto simp add: forecast_dividends_def)
  have out: "out = sort_key sort_values_key (?df @ ?fd)"
    using assms forecast_dividends_result [OF ne, of cy cm years hy] by (simp add: Let_def)
  have "sorted (map sort_values_key out)" unfolding out by (rule sorted_sort_key)
  then have "sorted_wrt (\<lambda>a b. sort_values_key a \<le> sort_values_key b) out"
    by (simp add: sorted_map)
  then have a: "sorted_wrt ordered_rows out"
    by (rule sorted_wrt_mono_rel [rotated]) (rule sort_values_key_le)
  have b: "mset out = mset (?df @ ?fd)" unfolding out by simp
  have c: "filter (\<lambda>r. ticker r = tk \<and> record_date r = None) out
           = filter (\<lambda>r. ticker r = tk \<and> record_date r = None) (?df @ ?fd)" for tk
    using sort_key_stable [of sort_values_key "(tk, True, 0, 0, 0)" "?df @ ?fd"]
    unfolding out sort_values_key_undated .
  from a b c show ?thesis by blast
qed

theorem merged_output_sorted_witness:
  "map_option (map ticker)
     (fst (forecast_dividends 2024 6 1 3 \<lparr>clean_df = example_frame, result_df = None\<rparr>))
     = Some [''AAA'', ''AAA'', ''AAA'', ''ZZZ'', ''ZZZ'', ''ZZZ'', ''ZZZ'', ''ZZZ'', ''ZZZ'']
   \<and> map_option (map record_date)
     (fst (forecast_dividends 2024 6 1 3 \<lparr>clean_df = example_frame, result_df = None\<rparr>))
     = Some [Some \<lparr>dyear = 2022, dmonth = 6, dday = 12\<rparr>,
             Some \<lparr>dyear = 2023, dmonth = 6, dday = 10\<rparr>,
             Some \<lparr>dyear = 2025, dmonth = 6, dday = 11\<rparr>,
             Some \<lparr>dyear = 2025, dmonth = 3, dday = 15\<rparr>,
             Some \<lparr>dyear = 2025, dmonth = 6, dday = 15\<rparr>,
             Some \<lparr>dyear = 2025, dmonth = 9, dday = 15\<rparr>,
             Some \<lparr>dyear = 2025, dmonth = 12, dday = 15\<rparr>,
             None, None]
   \<and> map_option (map year)
     (fst (forecast_dividends 2024 6 1 3 \<lparr>clean_df = example_frame, result_df = None\<rparr>))
     = Some [Some 2022, Some 2023, Some 2025, Some 2025, Some 2025, Some 2025, Some 2025,
             Some 2023, Some 2022]
   \<and> sorted_wrt ordered_rows
     (the (fst (forecast_dividends 2024 6 1 3 \<lparr>clean_df = example_frame, result_df = None\<rparr>)))"
proof -
  let ?self = "\<lparr>clean_df = example_frame, result_df = None\<rparr>"
  have e1: "map_option (map ticker) (fst (forecast_dividends 2024 6 1 3 ?self))
     = Some [''AAA'', ''AAA'', ''AAA'', ''ZZZ'', ''ZZZ'', ''ZZZ'', ''ZZZ'', ''ZZZ'', ''ZZZ'']"
    by code_simp
  have e2: "map_option (map record_date) (fst (forecast_dividends 2024 6 1 3 ?self))
     = Some [Some \<lparr>dyear = 2022, dmonth = 6, dday = 12\<rparr>,
             Some \<lparr>dyear = 2023, dmonth = 6, dday = 10\<rparr>,
             Some \<lparr>dyear = 2025, dmonth = 6, dday = 11\<rparr>,
             Some \<lparr>dyear = 2025, dmonth = 3, dday = 15\<rparr>,
             Some \<lparr>dyear = 2025, dmonth = 6, dday = 15\<rparr>,
             Some \<lparr>dyear = 2025, dmonth = 9, dday = 15\<rparr>,
             Some \<lparr>dyear = 2025, dmonth = 12, dday = 15\<rparr>,
             None, None]"
    by code_simp
  have e3: "map_option (map year) (fst (forecast_dividends 2024 6 1 3 ?self))
     = Some [Some 2022, Some 2023, Some 2025, Some 2025, Some 2025, Some 2025, Some 2025,
             Some 2023, Some 2022]"
    by code_simp
  from e1 obtain out where out: "fst (forecast_dividends 2024 6 1 3 ?self) = Some out"
    by (cases "fst (forecast_dividends 2024 6 1 3 ?self)") auto
  have fd: "forecast_data 2024 6 1 3 (map add_strategy_column (clean_df ?self)) \<noteq> []"
    by code_simp
  from merged_output_sorted [OF out fd] have "sorted_wrt ordered_rows out" by blast
  with e1 e2 e3 out show ?thesis by simp
qed



end
